theory Spec2Isabelle
  imports Complex_Main
begin

section \<open>The rule-based medical diagnosis model (src/src/model.py)\<close>

text \<open>
  The class \<^verbatim>\<open>MedicalDiagnosisModel\<close> holds three constant tables and five methods.
  The tables are Python dictionaries; since Python dictionaries iterate in insertion
  order and two of the methods rely on that order (the first matching severity interval,
  the first maximal pattern score), every dictionary is an association list in insertion
  order. The keys of a dictionary are distinct; the input is read with \<open>map_of\<close> and
  iterated as a list, and no theorem below needs the distinctness as a hypothesis.

  Numbers. An intensity is a Python \<^verbatim>\<open>int\<close> or \<^verbatim>\<open>float\<close>
  (\<^verbatim>\<open>Union[float, int]\<close>). A Python int is unbounded; a float is idealised as the
  real number it denotes, and float arithmetic as exact real arithmetic (no rounding
  error, no NaN, no infinities). The one place where the two kinds of number differ in
  control flow is kept: \<^verbatim>\<open>intensity / 10.0\<close> first converts an int to a float,
  and CPython raises \<^verbatim>\<open>OverflowError\<close> when the int rounds (to nearest, ties to
  even) to a magnitude of \<open>2 ^ 1024\<close> or more, that is, from \<open>2 ^ 1024 - 2 ^ 970\<close> on.
\<close>

subsection \<open>Values and errors\<close>

datatype pynum = PInt int | PFloat real

datatype error = ValueError string | OverflowError string

type_synonym symptom_input = "(string \<times> pynum) list"

text \<open>\<^verbatim>\<open>str(e)\<close> of a caught exception: its message.\<close>

fun str_of_error :: "error \<Rightarrow> string" where
  "str_of_error (ValueError msg) = msg"
| "str_of_error (OverflowError msg) = msg"

definition float_max_int :: int where
  "float_max_int = 2 ^ 1024 - 2 ^ 970"

text \<open>The real value of a number, as Python compares numbers of either kind.\<close>

fun num_val :: "pynum \<Rightarrow> real" where
  "num_val (PInt i) = real_of_int i"
| "num_val (PFloat x) = x"

text \<open>\<^verbatim>\<open>x / 10.0\<close>: true division by a float constant.\<close>

fun truediv10 :: "pynum \<Rightarrow> error + real" where
  "truediv10 (PInt i) =
     (if float_max_int \<le> \<bar>i\<bar> then Inl (OverflowError ''int too large to convert to float'')
      else Inr (real_of_int i / 10))"
| "truediv10 (PFloat x) = Inr (x / 10)"

text \<open>\<^verbatim>\<open>min(max(intensity / 10.0, 0.0), 1.0)\<close>, lines 100 and 130.\<close>

definition normalize :: "pynum \<Rightarrow> error + real" where
  "normalize intensity =
     (case truediv10 intensity of
        Inl e \<Rightarrow> Inl e
      | Inr q \<Rightarrow> Inr (min (max q 0) 1))"

text \<open>\<^verbatim>\<open>symptoms[symptom] > 0\<close>: comparing with the int 0 converts nothing.\<close>

fun gt_zero :: "pynum \<Rightarrow> bool" where
  "gt_zero (PInt i) = (0 < i)"
| "gt_zero (PFloat x) = (0 < x)"

subsection \<open>The knowledge tables\<close>

definition symptom_weights :: "(string \<times> real) list" where
  "symptom_weights =
     [(''fiebre'', 0.8),
      (''dolor_cabeza'', 0.6),
      (''nausea'', 0.5),
      (''fatiga'', 0.4),
      (''dolor_pecho'', 0.9),
      (''dificultad_respirar'', 0.95),
      (''dolor_abdominal'', 0.7),
      (''mareos'', 0.5),
      (''perdida_peso'', 0.6),
      (''tos'', 0.6),
      (''congestion_nasal'', 0.3),
      (''dolor_garganta'', 0.4),
      (''dolor_muscular'', 0.4),
      (''dolor_articular'', 0.5),
      (''erupcion_cutanea'', 0.6),
      (''sangrado'', 0.8),
      (''cambios_vision'', 0.7),
      (''confusion'', 0.9),
      (''convulsiones'', 0.95),
      (''dolor_espalda'', 0.5)]"

definition disease_patterns :: "(string \<times> string list) list" where
  "disease_patterns =
     [(''infeccion_respiratoria'', [''fiebre'', ''tos'', ''congestion_nasal'', ''dolor_garganta'']),
      (''gastroenteritis'', [''nausea'', ''dolor_abdominal'', ''fatiga'']),
      (''migrana'', [''dolor_cabeza'', ''nausea'', ''mareos'']),
      (''ansiedad'', [''dolor_pecho'', ''dificultad_respirar'', ''mareos'', ''fatiga'']),
      (''diabetes'', [''perdida_peso'', ''fatiga'', ''cambios_vision'']),
      (''hipertension'', [''dolor_cabeza'', ''mareos'', ''dolor_pecho'']),
      (''artritis'', [''dolor_articular'', ''dolor_muscular'', ''fatiga'']),
      (''enfermedad_cardiaca'', [''dolor_pecho'', ''dificultad_respirar'', ''fatiga'']),
      (''enfermedad_renal'', [''fatiga'', ''nausea'', ''dolor_espalda'']),
      (''enfermedad_hepatica'', [''fatiga'', ''nausea'', ''dolor_abdominal'', ''erupcion_cutanea'']),
      (''enfermedad_autoimmune'', [''fatiga'', ''dolor_articular'', ''erupcion_cutanea'', ''fiebre'']),
      (''cancer'', [''perdida_peso'', ''fatiga'', ''dolor_abdominal'', ''sangrado'']),
      (''enfermedad_neurologica'', [''confusion'', ''convulsiones'', ''cambios_vision'', ''mareos''])]"

definition severity_thresholds :: "(string \<times> real \<times> real) list" where
  "severity_thresholds =
     [(''NO_ENFERMO'', (0.0, 0.3)),
      (''ENFERMEDAD_LEVE'', (0.3, 0.6)),
      (''ENFERMEDAD_AGUDA'', (0.6, 0.8)),
      (''ENFERMEDAD_CRONICA'', (0.8, 1.0))]"

subsection \<open>calculate_symptom_score\<close>

text \<open>
  The loop of lines 97 to 103 over \<^verbatim>\<open>symptoms.items()\<close>, with the two accumulators
  \<^verbatim>\<open>total_score\<close> and \<^verbatim>\<open>total_weight\<close>. An exception raised in the body ends
  the loop.
\<close>

fun score_loop :: "symptom_input \<Rightarrow> real \<Rightarrow> real \<Rightarrow> error + (real \<times> real)" where
  "score_loop [] total_score total_weight = Inr (total_score, total_weight)"
| "score_loop ((symptom, intensity) # rest) total_score total_weight =
     (case map_of symptom_weights symptom of
        None \<Rightarrow> score_loop rest total_score total_weight
      | Some weight \<Rightarrow>
          (case normalize intensity of
             Inl e \<Rightarrow> Inl e
           | Inr normalized_intensity \<Rightarrow>
               score_loop rest (total_score + normalized_intensity * weight)
                 (total_weight + weight)))"

definition calculate_symptom_score :: "symptom_input \<Rightarrow> error + real" where
  "calculate_symptom_score symptoms =
     (case score_loop symptoms 0 0 of
        Inl e \<Rightarrow> Inl e
      | Inr (total_score, total_weight) \<Rightarrow>
          if total_weight = 0 then Inr 0 else Inr (total_score / total_weight))"

subsection \<open>detect_disease_patterns\<close>

text \<open>
  \<^verbatim>\<open>d[k] = v\<close> on an insertion-ordered dictionary: an existing key keeps its place,
  a new key goes to the end.
\<close>

fun dict_set :: "('k \<times> 'v) list \<Rightarrow> 'k \<Rightarrow> 'v \<Rightarrow> ('k \<times> 'v) list" where
  "dict_set [] k v = [(k, v)]"
| "dict_set ((k', v') # rest) k v =
     (if k' = k then (k', v) # rest else (k', v') # dict_set rest k v)"

text \<open>
  The inner loop of lines 126 to 132 over the symptoms of one pattern, with the
  accumulators \<^verbatim>\<open>score\<close> and \<^verbatim>\<open>matched_symptoms\<close>. The input dictionary is
  read with \<open>map_of\<close>: \<^verbatim>\<open>symptom in symptoms\<close> and \<^verbatim>\<open>symptoms[symptom]\<close>.
\<close>

fun pattern_loop :: "symptom_input \<Rightarrow> string list \<Rightarrow> real \<Rightarrow> nat \<Rightarrow> error + (real \<times> nat)" where
  "pattern_loop symptoms [] score matched_symptoms = Inr (score, matched_symptoms)"
| "pattern_loop symptoms (symptom # rest) score matched_symptoms =
     (case map_of symptoms symptom of
        None \<Rightarrow> pattern_loop symptoms rest score matched_symptoms
      | Some v \<Rightarrow>
          if gt_zero v then
            (case normalize v of
               Inl e \<Rightarrow> Inl e
             | Inr intensity \<Rightarrow>
                 (let weight = (case map_of symptom_weights symptom of
                                  None \<Rightarrow> 0.5
                                | Some w \<Rightarrow> w)
                  in pattern_loop symptoms rest (score + intensity * weight)
                       (matched_symptoms + 1)))
          else pattern_loop symptoms rest score matched_symptoms)"

text \<open>The outer loop of lines 122 to 138 over \<^verbatim>\<open>self.disease_patterns.items()\<close>.\<close>

fun disease_loop ::
  "symptom_input \<Rightarrow> (string \<times> string list) list \<Rightarrow> (string \<times> real) list \<Rightarrow>
     error + (string \<times> real) list" where
  "disease_loop symptoms [] pattern_scores = Inr pattern_scores"
| "disease_loop symptoms ((disease, pattern_symptoms) # rest) pattern_scores =
     (case pattern_loop symptoms pattern_symptoms 0 0 of
        Inl e \<Rightarrow> Inl e
      | Inr (score, matched_symptoms) \<Rightarrow>
          disease_loop symptoms rest
            (dict_set pattern_scores disease
               (if 0 < length pattern_symptoms
                then score / real (length pattern_symptoms)
                else 0)))"

definition detect_disease_patterns :: "symptom_input \<Rightarrow> error + (string \<times> real) list" where
  "detect_disease_patterns symptoms = disease_loop symptoms disease_patterns []"

subsection \<open>determine_severity\<close>

text \<open>
  Python's \<^verbatim>\<open>max\<close> over a non-empty iterable keeps the first item and replaces it
  only by a strictly greater one.
\<close>

fun max_loop :: "real \<Rightarrow> real list \<Rightarrow> real" where
  "max_loop best [] = best"
| "max_loop best (x # xs) = max_loop (if best < x then x else best) xs"

text \<open>The loop of lines 158 to 160: the first interval that holds the score.\<close>

fun threshold_loop :: "(string \<times> real \<times> real) list \<Rightarrow> real \<Rightarrow> string option" where
  "threshold_loop [] adjusted_score = None"
| "threshold_loop ((severity, (min_threshold, max_threshold)) # rest) adjusted_score =
     (if min_threshold \<le> adjusted_score \<and> adjusted_score < max_threshold
      then Some severity
      else threshold_loop rest adjusted_score)"

definition determine_severity :: "real \<Rightarrow> (string \<times> real) list \<Rightarrow> string" where
  "determine_severity overall_score pattern_scores =
     (let max_pattern_score =
            (case map snd pattern_scores of [] \<Rightarrow> 0 | x # xs \<Rightarrow> max_loop x xs);
          adjusted_score = (overall_score + max_pattern_score) / 2
      in case threshold_loop severity_thresholds adjusted_score of
           Some severity \<Rightarrow> severity
         | None \<Rightarrow>
             if 1 \<le> adjusted_score then ''ENFERMEDAD_CRONICA'' else ''NO_ENFERMO'')"

subsection \<open>Recommendations\<close>

text \<open>
  \<^verbatim>\<open>_generate_recommendations\<close>, lines 220 to 254. The advisory strings are Spanish;
  a letter outside ASCII is written as the two bytes of its UTF-8 encoding.
\<close>

definition generate_recommendations :: "string \<Rightarrow> string \<Rightarrow> string list" where
  "generate_recommendations severity condition =
     (if severity = ''NO_ENFERMO'' then
        [''Continuar con el monitoreo regular de la salud'',
         ''Mantener h'' @ [CHR 0xC3, CHR 0xA1] @ ''bitos de vida saludables'',
         ''Consultar si aparecen nuevos s'' @ [CHR 0xC3, CHR 0xAD] @ ''ntomas'']
      else if severity = ''ENFERMEDAD_LEVE'' then
        [''Monitorear s'' @ [CHR 0xC3, CHR 0xAD] @ ''ntomas de cerca'',
         ''Considerar consulta m'' @ [CHR 0xC3, CHR 0xA9] @ ''dica si los s''
           @ [CHR 0xC3, CHR 0xAD] @ ''ntomas persisten'',
         ''Mantener reposo y hidrataci'' @ [CHR 0xC3, CHR 0xB3] @ ''n adecuada'',
         ''Evitar actividades extenuantes'']
      else if severity = ''ENFERMEDAD_AGUDA'' then
        [''CONSULTA M'' @ [CHR 0xC3, CHR 0x89] @ ''DICA INMEDIATA RECOMENDADA'',
         ''Buscar atenci'' @ [CHR 0xC3, CHR 0xB3] @ ''n m'' @ [CHR 0xC3, CHR 0xA9]
           @ ''dica en las pr'' @ [CHR 0xC3, CHR 0xB3] @ ''ximas 24 horas'',
         ''Monitorear signos vitales regularmente'',
         ''Evitar automedicaci'' @ [CHR 0xC3, CHR 0xB3] @ ''n'',
         ''Considerar visita a urgencias si empeora'']
      else if severity = ''ENFERMEDAD_CRONICA'' then
        [''CONSULTA M'' @ [CHR 0xC3, CHR 0x89] @ ''DICA URGENTE REQUERIDA'',
         ''Buscar atenci'' @ [CHR 0xC3, CHR 0xB3] @ ''n especializada inmediatamente'',
         ''Posible hospitalizaci'' @ [CHR 0xC3, CHR 0xB3] @ ''n requerida'',
         ''Monitoreo m'' @ [CHR 0xC3, CHR 0xA9] @ ''dico continuo necesario'',
         ''Seguimiento con especialista recomendado'']
      else [])"

subsection \<open>predict_diagnosis\<close>

text \<open>
  \<^verbatim>\<open>round(x, 3)\<close> on a float rounds to the nearest multiple of \<open>1/1000\<close>, a tie to
  the even one (on the idealised real value).
\<close>

definition round_half_even :: "real \<Rightarrow> int" where
  "round_half_even x =
     (let f = \<lfloor>x\<rfloor>; d = x - of_int f
      in if d < 1 / 2 then f
         else if 1 / 2 < d then f + 1
         else if even f then f else f + 1)"

definition py_round :: "real \<Rightarrow> nat \<Rightarrow> real" where
  "py_round x ndigits = of_int (round_half_even (x * 10 ^ ndigits)) / 10 ^ ndigits"

text \<open>
  \<^verbatim>\<open>max(pattern_scores.items(), key=lambda x: x[1])\<close>: the first item whose value
  no later item exceeds.
\<close>

fun max_item_loop :: "string \<times> real \<Rightarrow> (string \<times> real) list \<Rightarrow> string \<times> real" where
  "max_item_loop best [] = best"
| "max_item_loop best (x # xs) = max_item_loop (if snd best < snd x then x else best) xs"

text \<open>
  Line 193: the item of the greatest value, or the pair \<^verbatim>\<open>("ninguna", 0.0)\<close> when
  there are no pattern scores.
\<close>

definition most_likely :: "(string \<times> real) list \<Rightarrow> string \<times> real" where
  "most_likely pattern_scores =
     (case pattern_scores of
        [] \<Rightarrow> (''ninguna'', 0)
      | p # ps \<Rightarrow> max_item_loop p ps)"

text \<open>
  The returned dictionary: its keys in insertion order, each with a value of one of the
  five kinds the source stores.
\<close>

datatype field =
    FStr string
  | FFloat real
  | FScores "(string \<times> real) list"
  | FList "string list"
  | FInput symptom_input

type_synonym result = "(string \<times> field) list"

text \<open>The body of the \<^verbatim>\<open>try\<close> block, lines 179 to 210 (the log line apart).\<close>

definition predict_try :: "symptom_input \<Rightarrow> error + result" where
  "predict_try symptoms =
     (if symptoms = [] \<or> length symptoms < 3 then
        Inl (ValueError (''Se requieren al menos 3 s'' @ [CHR 0xC3, CHR 0xAD]
               @ ''ntomas para el diagn'' @ [CHR 0xC3, CHR 0xB3] @ ''stico''))
      else
        case calculate_symptom_score symptoms of
          Inl e \<Rightarrow> Inl e
        | Inr overall_score \<Rightarrow>
            (case detect_disease_patterns symptoms of
               Inl e \<Rightarrow> Inl e
             | Inr pattern_scores \<Rightarrow>
                 (let severity = determine_severity overall_score pattern_scores;
                      most_likely_disease = most_likely pattern_scores;
                      recommendations =
                        generate_recommendations severity (fst most_likely_disease)
                  in Inr [(''diagnosis'', FStr severity),
                          (''confidence'', FFloat (py_round overall_score 3)),
                          (''most_likely_condition'', FStr (fst most_likely_disease)),
                          (''condition_confidence'',
                             FFloat (py_round (snd most_likely_disease) 3)),
                          (''symptom_score'', FFloat (py_round overall_score 3)),
                          (''pattern_scores'',
                             FScores (map (\<lambda>(k, v). (k, py_round v 3)) pattern_scores)),
                          (''recommendations'', FList recommendations),
                          (''input_symptoms'', FInput symptoms)])))"

text \<open>The \<^verbatim>\<open>except Exception\<close> clause, lines 212 to 218, turns any error into a record.\<close>

definition predict_diagnosis :: "symptom_input \<Rightarrow> result" where
  "predict_diagnosis symptoms =
     (case predict_try symptoms of
        Inr result \<Rightarrow> result
      | Inl e \<Rightarrow>
          [(''error'', FStr (str_of_error e)),
           (''diagnosis'', FStr ''ERROR''),
           (''confidence'', FFloat 0)])"

text \<open>\<^verbatim>\<open>predict_medical_diagnosis\<close>, line 270, calls the global instance.\<close>

definition predict_medical_diagnosis :: "symptom_input \<Rightarrow> result" where
  "predict_medical_diagnosis symptoms = predict_diagnosis symptoms"

text \<open>The example of lines 275 to 281.\<close>

definition example_symptoms :: symptom_input where
  "example_symptoms =
     [(''fiebre'', PInt 8), (''dolor_cabeza'', PInt 7), (''nausea'', PInt 5),
      (''fatiga'', PInt 6), (''dolor_pecho'', PInt 3)]"

section \<open>The specification's vocabulary\<close>

text \<open>
  The definitions of this section follow the words of the specification, not the code;
  the theorems below compare them with the functions above.
\<close>

text \<open>An intensity that \<^verbatim>\<open>/ 10.0\<close> can convert: any float, and an int in float range.\<close>

fun float_ok :: "pynum \<Rightarrow> bool" where
  "float_ok (PInt i) = (\<bar>i\<bar> < float_max_int)"
| "float_ok (PFloat x) = True"

text \<open>\<open>clamp(x, 0, 1)\<close>.\<close>

definition clamp01 :: "real \<Rightarrow> real" where
  "clamp01 x = min (max x 0) 1"

definition in_weight_table :: "string \<Rightarrow> bool" where
  "in_weight_table k = (k \<in> fst ` set symptom_weights)"

text \<open>The weight of a symptom, \<open>d\<close> when the table has none.\<close>

definition weight_or :: "real \<Rightarrow> string \<Rightarrow> real" where
  "weight_or d k = (case map_of symptom_weights k of None \<Rightarrow> d | Some w \<Rightarrow> w)"

text \<open>The entries of the input whose key is in the weight table.\<close>

definition recognized :: "symptom_input \<Rightarrow> symptom_input" where
  "recognized symptoms = filter (\<lambda>(k, v). in_weight_table k) symptoms"

definition weighted_sum :: "symptom_input \<Rightarrow> real" where
  "weighted_sum symptoms =
     (\<Sum>(k, v)\<leftarrow>recognized symptoms. clamp01 (num_val v / 10) * weight_or 0 k)"

definition weight_total :: "symptom_input \<Rightarrow> real" where
  "weight_total symptoms = (\<Sum>(k, v)\<leftarrow>recognized symptoms. weight_or 0 k)"

definition spec_symptom_score :: "symptom_input \<Rightarrow> real" where
  "spec_symptom_score symptoms =
     (if 0 < weight_total symptoms then weighted_sum symptoms / weight_total symptoms else 0)"

text \<open>The greatest pattern score, 0 for an empty mapping, and the adjusted score.\<close>

definition best_pattern_score :: "(string \<times> real) list \<Rightarrow> real" where
  "best_pattern_score patterns = (if patterns = [] then 0 else Max (snd ` set patterns))"

definition adjusted :: "real \<Rightarrow> (string \<times> real) list \<Rightarrow> real" where
  "adjusted overall patterns = (overall + best_pattern_score patterns) / 2"

text \<open>The half-open interval \<open>[low, high)\<close> of a threshold entry contains \<open>v\<close>.\<close>

definition in_interval :: "real \<Rightarrow> string \<times> real \<times> real \<Rightarrow> bool" where
  "in_interval v = (\<lambda>(label, low, high). low \<le> v \<and> v < high)"

text \<open>
  What one symptom of a pattern adds to the pattern's score: nothing when it is absent
  from the input or its intensity is not above 0, else
  \<open>clamp(intensity / 10, 0, 1)\<close> times its weight (0.5 when the table has none).
\<close>

definition contribution :: "symptom_input \<Rightarrow> string \<Rightarrow> real" where
  "contribution symptoms k =
     (case map_of symptoms k of
        None \<Rightarrow> 0
      | Some v \<Rightarrow> if gt_zero v then clamp01 (num_val v / 10) * weight_or (1 / 2) k else 0)"

text \<open>The sum of the contributions, divided by the number of symptoms of the pattern.\<close>

definition spec_pattern_score :: "symptom_input \<Rightarrow> string list \<Rightarrow> real" where
  "spec_pattern_score symptoms pattern =
     (\<Sum>k\<leftarrow>pattern. contribution symptoms k) / real (length pattern)"

text \<open>Every intensity above 0 under a symptom of the pattern converts to a float.\<close>

definition pattern_ok :: "symptom_input \<Rightarrow> string list \<Rightarrow> bool" where
  "pattern_ok symptoms pattern =
     list_all (\<lambda>k. case map_of symptoms k of
                     None \<Rightarrow> True
                   | Some v \<Rightarrow> gt_zero v \<longrightarrow> float_ok v) pattern"

definition patterns_ok :: "symptom_input \<Rightarrow> bool" where
  "patterns_ok symptoms = list_all (\<lambda>(d, p). pattern_ok symptoms p) disease_patterns"

section \<open>Normalisation and the weight table\<close>

lemma normalize_eq:
  "normalize v = (if float_ok v then Inr (clamp01 (num_val v / 10))
                  else Inl (OverflowError ''int too large to convert to float''))"
  by (cases v) (auto simp: normalize_def clamp01_def)

lemma clamp01_bounds: "0 \<le> clamp01 x" "clamp01 x \<le> 1"
  by (simp_all add: clamp01_def)

lemma clamp01_mono: "x \<le> y \<Longrightarrow> clamp01 x \<le> clamp01 y"
  by (simp add: clamp01_def min_def max_def)

lemma weights_range: "map_of symptom_weights k = Some w \<Longrightarrow> 0 < w \<and> w \<le> 1"
proof -
  assume "map_of symptom_weights k = Some w"
  then have "(k, w) \<in> set symptom_weights" by (rule map_of_SomeD)
  then show ?thesis unfolding symptom_weights_def by auto
qed

lemma in_weight_table_iff: "in_weight_table k \<longleftrightarrow> map_of symptom_weights k \<noteq> None"
  by (simp add: in_weight_table_def map_of_eq_None_iff)

lemma weight_or_range: "0 \<le> d \<Longrightarrow> d \<le> 1 \<Longrightarrow> 0 \<le> weight_or d k \<and> weight_or d k \<le> 1"
  using weights_range[of k] by (auto simp: weight_or_def split: option.splits)


section \<open>The symptom score\<close>

lemma score_loop_eq:
  "(\<forall>(k, v) \<in> set (recognized symptoms). float_ok v) \<Longrightarrow>
   score_loop symptoms ts tw = Inr (ts + weighted_sum symptoms, tw + weight_total symptoms)"
proof (induction symptoms arbitrary: ts tw)
  case Nil
  then show ?case by (simp add: weighted_sum_def weight_total_def recognized_def)
next
  case (Cons a symptoms)
  obtain k v where a: "a = (k, v)" by (cases a)
  have rest: "\<forall>(k, v) \<in> set (recognized symptoms). float_ok v"
    using Cons.prems by (auto simp: recognized_def)
  show ?case
  proof (cases "map_of symptom_weights k")
    case None
    then have "\<not> in_weight_table k" by (simp add: in_weight_table_iff)
    then show ?thesis using None Cons.IH[OF rest] a
      by (simp add: weighted_sum_def weight_total_def recognized_def)
  next
    case (Some w)
    then have k: "in_weight_table k" by (simp add: in_weight_table_iff)
    then have "float_ok v" using Cons.prems a by (auto simp: recognized_def)
    then show ?thesis using Some Cons.IH[OF rest] a k
      by (simp add: normalize_eq weighted_sum_def weight_total_def recognized_def weight_or_def)
  qed
qed

lemma score_loop_overflow:
  "\<not> (\<forall>(k, v) \<in> set (recognized symptoms). float_ok v) \<Longrightarrow>
   score_loop symptoms ts tw = Inl (OverflowError ''int too large to convert to float'')"
proof (induction symptoms arbitrary: ts tw)
  case Nil
  then show ?case by (simp add: recognized_def)
next
  case (Cons a symptoms)
  obtain k v where a: "a = (k, v)" by (cases a)
  show ?case
  proof (cases "map_of symptom_weights k")
    case None
    then have "\<not> in_weight_table k" by (simp add: in_weight_table_iff)
    then have "\<not> (\<forall>(k, v) \<in> set (recognized symptoms). float_ok v)"
      using Cons.prems a by (auto simp: recognized_def)
    then show ?thesis using None Cons.IH a by simp
  next
    case (Some w)
    then have k: "in_weight_table k" by (simp add: in_weight_table_iff)
    show ?thesis
    proof (cases "float_ok v")
      case True
      then have "\<not> (\<forall>(k, v) \<in> set (recognized symptoms). float_ok v)"
        using Cons.prems a k by (auto simp: recognized_def)
      then show ?thesis using Some Cons.IH a True by (simp add: normalize_eq)
    next
      case False
      then show ?thesis using Some a by (simp add: normalize_eq)
    qed
  qed
qed

lemma weight_total_nonneg: "0 \<le> weight_total symptoms"
  unfolding weight_total_def
  by (rule sum_list_nonneg) (auto simp: weight_or_range)




lemma calculate_symptom_score_eq:
  "calculate_symptom_score symptoms =
     (if \<forall>(k, v) \<in> set (recognized symptoms). float_ok v
      then Inr (spec_symptom_score symptoms)
      else Inl (OverflowError ''int too large to convert to float''))"
proof (cases "\<forall>(k, v) \<in> set (recognized symptoms). float_ok v")
  case True
  have "score_loop symptoms 0 0 = Inr (weighted_sum symptoms, weight_total symptoms)"
    using score_loop_eq[OF True, of 0 0] by simp
  then show ?thesis using True weight_total_nonneg[of symptoms]
    by (auto simp: calculate_symptom_score_def spec_symptom_score_def)
next
  case False
  then show ?thesis using score_loop_overflow[OF False, of 0 0]
    by (simp add: calculate_symptom_score_def)
qed




section \<open>The pattern scores\<close>


lemma pattern_loop_eq:
  "pattern_ok symptoms pattern \<Longrightarrow>
   \<exists>m. pattern_loop symptoms pattern score matched =
         Inr (score + (\<Sum>k\<leftarrow>pattern. contribution symptoms k), m)"
proof (induction pattern arbitrary: score matched)
  case Nil
  then show ?case by simp
next
  case (Cons k pattern)
  have rest: "pattern_ok symptoms pattern"
    using Cons.prems by (simp add: pattern_ok_def)
  show ?case
  proof (cases "map_of symptoms k")
    case None
    then show ?thesis using Cons.IH[OF rest, of score matched]
      by (simp add: contribution_def)
  next
    case (Some v)
    show ?thesis
    proof (cases "gt_zero v")
      case True
      then have "float_ok v" using Cons.prems Some by (simp add: pattern_ok_def)
      then show ?thesis
        using Some True
          Cons.IH[OF rest, of "score + clamp01 (num_val v / 10) * weight_or (1 / 2) k"
            "matched + 1"]
        by (simp add: contribution_def normalize_eq weight_or_def[symmetric] add.assoc)
    next
      case False
      then show ?thesis using Some Cons.IH[OF rest, of score matched]
        by (simp add: contribution_def)
    qed
  qed
qed

lemma pattern_loop_overflow:
  "\<not> pattern_ok symptoms pattern \<Longrightarrow>
   pattern_loop symptoms pattern score matched =
     Inl (OverflowError ''int too large to convert to float'')"
proof (induction pattern arbitrary: score matched)
  case Nil
  then show ?case by (simp add: pattern_ok_def)
next
  case (Cons k pattern)
  show ?case
  proof (cases "map_of symptoms k")
    case None
    then have "\<not> pattern_ok symptoms pattern"
      using Cons.prems by (simp add: pattern_ok_def)
    then show ?thesis using None Cons.IH by simp
  next
    case (Some v)
    show ?thesis
    proof (cases "gt_zero v")
      case True
      show ?thesis
      proof (cases "float_ok v")
        case ok: True
        then have "\<not> pattern_ok symptoms pattern"
          using Cons.prems Some by (simp add: pattern_ok_def)
        then show ?thesis using Some True ok Cons.IH by (simp add: normalize_eq)
      next
        case False
        then show ?thesis using Some True by (simp add: normalize_eq)
      qed
    next
      case False
      then have "\<not> pattern_ok symptoms pattern"
        using Cons.prems Some by (simp add: pattern_ok_def)
      then show ?thesis using Some False Cons.IH by simp
    qed
  qed
qed

lemma dict_set_fresh: "k \<notin> fst ` set d \<Longrightarrow> dict_set d k v = d @ [(k, v)]"
  by (induction d) auto

lemma disease_loop_eq:
  "distinct (map fst patterns) \<Longrightarrow> fst ` set acc \<inter> fst ` set patterns = {} \<Longrightarrow>
   list_all (\<lambda>(d, p). pattern_ok symptoms p \<and> p \<noteq> []) patterns \<Longrightarrow>
   disease_loop symptoms patterns acc =
     Inr (acc @ map (\<lambda>(d, p). (d, spec_pattern_score symptoms p)) patterns)"
proof (induction patterns arbitrary: acc)
  case Nil
  then show ?case by simp
next
  case (Cons a patterns)
  obtain d p where a: "a = (d, p)" by (cases a)
  have ok: "pattern_ok symptoms p" and ne: "p \<noteq> []"
    using Cons.prems(3) a by simp_all
  obtain m where loop: "pattern_loop symptoms p 0 0 = Inr (\<Sum>k\<leftarrow>p. contribution symptoms k, m)"
    using pattern_loop_eq[OF ok, of 0 0] by auto
  have fresh: "d \<notin> fst ` set acc" using Cons.prems(2) a by auto
  let ?acc = "acc @ [(d, spec_pattern_score symptoms p)]"
  have 1: "distinct (map fst patterns)" using Cons.prems(1) by simp
  have 2: "fst ` set ?acc \<inter> fst ` set patterns = {}"
    using Cons.prems(1,2) a by auto
  have 3: "list_all (\<lambda>(d, p). pattern_ok symptoms p \<and> p \<noteq> []) patterns"
    using Cons.prems(3) by simp
  show ?case
    using loop ne a Cons.IH[OF 1 2 3]
    by (simp add: dict_set_fresh[OF fresh] spec_pattern_score_def)
qed

lemma disease_loop_overflow:
  "\<not> list_all (\<lambda>(d, p). pattern_ok symptoms p) patterns \<Longrightarrow>
   disease_loop symptoms patterns acc =
     Inl (OverflowError ''int too large to convert to float'')"
proof (induction patterns arbitrary: acc)
  case Nil
  then show ?case by simp
next
  case (Cons a patterns)
  obtain d p where a: "a = (d, p)" by (cases a)
  show ?case
  proof (cases "pattern_ok symptoms p")
    case True
    then have rest: "\<not> list_all (\<lambda>(d, p). pattern_ok symptoms p) patterns"
      using Cons.prems a by simp
    obtain m where "pattern_loop symptoms p 0 0 = Inr (\<Sum>k\<leftarrow>p. contribution symptoms k, m)"
      using pattern_loop_eq[OF True, of 0 0] by auto
    then show ?thesis using a Cons.IH[OF rest] by simp
  next
    case False
    then show ?thesis using a pattern_loop_overflow[OF False, of 0 0] by simp
  qed
qed

lemma disease_patterns_keys:
  "map fst disease_patterns =
     [''infeccion_respiratoria'', ''gastroenteritis'', ''migrana'', ''ansiedad'', ''diabetes'',
      ''hipertension'', ''artritis'', ''enfermedad_cardiaca'', ''enfermedad_renal'',
      ''enfermedad_hepatica'', ''enfermedad_autoimmune'', ''cancer'',
      ''enfermedad_neurologica'']"
  by (simp add: disease_patterns_def)

lemma disease_patterns_distinct: "distinct (map fst disease_patterns)"
  by (simp add: disease_patterns_keys)

lemma disease_patterns_nonempty: "list_all (\<lambda>(d, p). p \<noteq> []) disease_patterns"
  by (simp add: disease_patterns_def)

lemma detect_disease_patterns_eq:
  "detect_disease_patterns symptoms =
     (if patterns_ok symptoms
      then Inr (map (\<lambda>(d, p). (d, spec_pattern_score symptoms p)) disease_patterns)
      else Inl (OverflowError ''int too large to convert to float''))"
proof (cases "patterns_ok symptoms")
  case True
  have "list_all (\<lambda>(d, p). pattern_ok symptoms p \<and> p \<noteq> []) disease_patterns"
    using True disease_patterns_nonempty
    by (auto simp: patterns_ok_def list_all_iff)
  then show ?thesis
    using True disease_loop_eq[OF disease_patterns_distinct, of "[]" symptoms]
    by (simp add: detect_disease_patterns_def)
next
  case False
  then show ?thesis
    using disease_loop_overflow[of symptoms disease_patterns "[]"]
    by (simp add: detect_disease_patterns_def patterns_ok_def)
qed





section \<open>Severity\<close>

lemma max_loop_fold: "max_loop best xs = fold max xs best"
  by (induction xs arbitrary: best) (simp_all add: max_def)

lemma max_loop_Max: "max_loop x xs = Max (set (x # xs))"
  by (simp only: max_loop_fold Max.set_eq_fold)

lemma max_pattern_score_eq:
  "(case map snd patterns of [] \<Rightarrow> 0 | x # xs \<Rightarrow> max_loop x xs) = best_pattern_score patterns"
proof (cases patterns)
  case Nil
  then show ?thesis by (simp add: best_pattern_score_def)
next
  case (Cons p ps)
  have "max_loop (snd p) (map snd ps) = Max (set (snd p # map snd ps))"
    by (rule max_loop_Max)
  then show ?thesis using Cons by (simp add: best_pattern_score_def)
qed


lemma determine_severity_cases:
  "determine_severity overall patterns =
     (let a = adjusted overall patterns in
      if 0 \<le> a \<and> a < 3 / 10 then ''NO_ENFERMO''
      else if 3 / 10 \<le> a \<and> a < 6 / 10 then ''ENFERMEDAD_LEVE''
      else if 6 / 10 \<le> a \<and> a < 8 / 10 then ''ENFERMEDAD_AGUDA''
      else if 8 / 10 \<le> a then ''ENFERMEDAD_CRONICA''
      else ''NO_ENFERMO'')"
  by (simp add: determine_severity_def max_pattern_score_eq adjusted_def
      severity_thresholds_def Let_def)

lemma determine_severity_label:
  "determine_severity overall patterns \<in>
     {''NO_ENFERMO'', ''ENFERMEDAD_LEVE'', ''ENFERMEDAD_AGUDA'', ''ENFERMEDAD_CRONICA''}"
  by (simp add: determine_severity_cases Let_def)


text \<open>
  C6: the threshold table holds exactly the four intervals \<^verbatim>\<open>NO_ENFERMO\<close>
  \<open>[0, 0.3)\<close>, \<^verbatim>\<open>ENFERMEDAD_LEVE\<close> \<open>[0.3, 0.6)\<close>, \<^verbatim>\<open>ENFERMEDAD_AGUDA\<close>
  \<open>[0.6, 0.8)\<close> and \<^verbatim>\<open>ENFERMEDAD_CRONICA\<close> \<open>[0.8, 1.0)\<close> (the specification's
  NOT_SICK, MILD, ACUTE and CHRONIC), and every \<open>v\<close> in \<open>[0, 1)\<close> lies in exactly one
  of them.
\<close>

theorem severity_thresholds_partition:
  "severity_thresholds =
     [(''NO_ENFERMO'', 0, 3 / 10), (''ENFERMEDAD_LEVE'', 3 / 10, 6 / 10),
      (''ENFERMEDAD_AGUDA'', 6 / 10, 8 / 10), (''ENFERMEDAD_CRONICA'', 8 / 10, 1)]
   \<and> (0 \<le> v \<and> v < 1 \<longrightarrow> length (filter (in_interval v) severity_thresholds) = 1)"
  by (auto simp: severity_thresholds_def in_interval_def)

theorem severity_thresholds_partition_witness:
  "filter (in_interval (45 / 100)) severity_thresholds = [(''ENFERMEDAD_LEVE'', 3 / 10, 6 / 10)]"
  using severity_thresholds_partition[of "45 / 100"]
  by (simp add: severity_thresholds_def in_interval_def)

section \<open>Recommendations\<close>



section \<open>The orchestrator\<close>

text \<open>
  C4: for every symptom input with fewer than 3 entries, the empty one included,
  \<^verbatim>\<open>predict_diagnosis\<close> returns the error record: the message of the
  \<^verbatim>\<open>ValueError\<close> under \<^verbatim>\<open>error\<close>, the diagnosis \<^verbatim>\<open>"ERROR"\<close> and the
  confidence 0. The exception is caught inside; the function returns a record.
\<close>

theorem predict_diagnosis_too_few:
  assumes "length symptoms < 3"
  shows "predict_diagnosis symptoms =
           [(''error'', FStr (''Se requieren al menos 3 s'' @ [CHR 0xC3, CHR 0xAD]
               @ ''ntomas para el diagn'' @ [CHR 0xC3, CHR 0xB3] @ ''stico'')),
            (''diagnosis'', FStr ''ERROR''),
            (''confidence'', FFloat 0)]"
  using assms by (simp add: predict_diagnosis_def predict_try_def)

theorem predict_diagnosis_too_few_witness:
  "map_of (predict_diagnosis [(''fiebre'', PInt 8)]) ''diagnosis'' = Some (FStr ''ERROR'')
   \<and> map_of (predict_diagnosis [(''fiebre'', PInt 8)]) ''confidence'' = Some (FFloat 0)
   \<and> map fst (predict_diagnosis []) = [''error'', ''diagnosis'', ''confidence'']"
  using predict_diagnosis_too_few[of "[(''fiebre'', PInt 8)]"] predict_diagnosis_too_few[of "[]"]
  by simp

lemma pattern_symptoms_weighted:
  "list_all (\<lambda>(d, p). list_all in_weight_table p) disease_patterns"
  by (simp add: disease_patterns_def in_weight_table_def symptom_weights_def)

lemma recognized_ok_patterns_ok:
  assumes "\<forall>(k, v) \<in> set (recognized symptoms). float_ok v"
  shows "patterns_ok symptoms"
proof -
  have "pattern_ok symptoms p" if dp: "(d, p) \<in> set disease_patterns" for d p
  proof -
    have inw: "\<forall>k \<in> set p. in_weight_table k"
      using pattern_symptoms_weighted dp by (auto simp: list_all_iff)
    have "float_ok v" if "k \<in> set p" "map_of symptoms k = Some v" for k v
    proof -
      have "(k, v) \<in> set symptoms" using that(2) by (rule map_of_SomeD)
      then have "(k, v) \<in> set (recognized symptoms)"
        using inw that(1) by (simp add: recognized_def)
      then show ?thesis using assms by auto
    qed
    then show ?thesis
      by (auto simp: pattern_ok_def list_all_iff split: option.splits)
  qed
  then show ?thesis by (auto simp: patterns_ok_def list_all_iff)
qed





lemma predict_diagnosis_cases:
  "predict_diagnosis symptoms =
     (if length symptoms < 3 then
        [(''error'', FStr (''Se requieren al menos 3 s'' @ [CHR 0xC3, CHR 0xAD]
            @ ''ntomas para el diagn'' @ [CHR 0xC3, CHR 0xB3] @ ''stico'')),
         (''diagnosis'', FStr ''ERROR''),
         (''confidence'', FFloat 0)]
      else if \<not> (\<forall>(k, v) \<in> set (recognized symptoms). float_ok v) then
        [(''error'', FStr ''int too large to convert to float''),
         (''diagnosis'', FStr ''ERROR''),
         (''confidence'', FFloat 0)]
      else
        (let overall_score = spec_symptom_score symptoms;
             pattern_scores =
               map (\<lambda>(d, p). (d, spec_pattern_score symptoms p)) disease_patterns;
             severity = determine_severity overall_score pattern_scores
         in [(''diagnosis'', FStr severity),
             (''confidence'', FFloat (py_round overall_score 3)),
             (''most_likely_condition'', FStr (fst (most_likely pattern_scores))),
             (''condition_confidence'', FFloat (py_round (snd (most_likely pattern_scores)) 3)),
             (''symptom_score'', FFloat (py_round overall_score 3)),
             (''pattern_scores'', FScores (map (\<lambda>(k, v). (k, py_round v 3)) pattern_scores)),
             (''recommendations'',
                FList (generate_recommendations severity (fst (most_likely pattern_scores)))),
             (''input_symptoms'', FInput symptoms)]))"
proof (cases "length symptoms < 3")
  case True
  then show ?thesis by (simp add: predict_diagnosis_def predict_try_def)
next
  case long: False
  then have ne: "symptoms \<noteq> []" by auto
  show ?thesis
  proof (cases "\<forall>(k, v) \<in> set (recognized symptoms). float_ok v")
    case True
    have c: "calculate_symptom_score symptoms = Inr (spec_symptom_score symptoms)"
      using True by (simp add: calculate_symptom_score_eq)
    have d: "detect_disease_patterns symptoms =
               Inr (map (\<lambda>(d, p). (d, spec_pattern_score symptoms p)) disease_patterns)"
      using recognized_ok_patterns_ok[OF True] by (simp add: detect_disease_patterns_eq)
    show ?thesis using long ne True
      by (simp add: predict_diagnosis_def predict_try_def c d Let_def)
  next
    case False
    have c: "calculate_symptom_score symptoms =
               Inl (OverflowError ''int too large to convert to float'')"
      using False by (simp add: calculate_symptom_score_eq)
    show ?thesis using long ne False
      by (simp add: predict_diagnosis_def predict_try_def c)
  qed
qed



text \<open>
  C9, as the claim states it, fails: numeric intensities do not keep the catch-all
  unreachable. With three entries, one of them an int too large for a float under a key of
  the weight table, \<^verbatim>\<open>calculate_symptom_score\<close> raises \<^verbatim>\<open>OverflowError\<close> and
  the \<^verbatim>\<open>except\<close> clause returns the error record.
\<close>

theorem predict_diagnosis_huge_int:
  "predict_diagnosis [(''fiebre'', PInt (10 ^ 400)), (''tos'', PInt 7), (''nausea'', PInt 5)] =
     [(''error'', FStr ''int too large to convert to float''),
      (''diagnosis'', FStr ''ERROR''),
      (''confidence'', FFloat 0)]"
  by (simp add: predict_diagnosis_def predict_try_def calculate_symptom_score_def
      symptom_weights_def normalize_def float_max_int_def)

text \<open>
  C9, amended: for every symptom input with at least 3 entries whose intensities under
  the keys of the weight table are floats or ints in float range, \<^verbatim>\<open>predict_diagnosis\<close>
  returns a record without \<^verbatim>\<open>error\<close> that holds the eight success fields, and its
  diagnosis is one of the four severity labels.
\<close>

theorem predict_diagnosis_success:
  assumes "3 \<le> length symptoms"
    and "\<forall>(k, v) \<in> set (recognized symptoms). float_ok v"
  shows "map fst (predict_diagnosis symptoms) =
           [''diagnosis'', ''confidence'', ''most_likely_condition'', ''condition_confidence'',
            ''symptom_score'', ''pattern_scores'', ''recommendations'', ''input_symptoms'']
         \<and> (\<exists>severity. map_of (predict_diagnosis symptoms) ''diagnosis'' = Some (FStr severity)
               \<and> severity \<in> {''NO_ENFERMO'', ''ENFERMEDAD_LEVE'', ''ENFERMEDAD_AGUDA'',
                               ''ENFERMEDAD_CRONICA''})"
proof -
  let ?scores = "map (\<lambda>(d, p). (d, spec_pattern_score symptoms p)) disease_patterns"
  let ?severity = "determine_severity (spec_symptom_score symptoms) ?scores"
  have long: "\<not> length symptoms < 3" using assms(1) by simp
  have keys: "map fst (predict_diagnosis symptoms) =
           [''diagnosis'', ''confidence'', ''most_likely_condition'', ''condition_confidence'',
            ''symptom_score'', ''pattern_scores'', ''recommendations'', ''input_symptoms'']"
    using long assms(2) by (simp add: predict_diagnosis_cases Let_def)
  have "map_of (predict_diagnosis symptoms) ''diagnosis'' = Some (FStr ?severity)"
    using long assms(2) by (simp add: predict_diagnosis_cases Let_def)
  moreover have "?severity \<in> {''NO_ENFERMO'', ''ENFERMEDAD_LEVE'', ''ENFERMEDAD_AGUDA'',
                               ''ENFERMEDAD_CRONICA''}"
    by (rule determine_severity_label)
  ultimately show ?thesis using keys by blast
qed

theorem predict_diagnosis_success_witness:
  "map fst (predict_diagnosis example_symptoms) =
     [''diagnosis'', ''confidence'', ''most_likely_condition'', ''condition_confidence'',
      ''symptom_score'', ''pattern_scores'', ''recommendations'', ''input_symptoms'']"
proof -
  have len: "3 \<le> length example_symptoms" by (simp add: example_symptoms_def)
  have ok: "\<forall>(k, v) \<in> set (recognized example_symptoms). float_ok v"
    by (simp add: recognized_def example_symptoms_def in_weight_table_def
        symptom_weights_def float_max_int_def)
  show ?thesis using predict_diagnosis_success[OF len ok] by simp
qed






section \<open>Monotonicity in an intensity\<close>

lemma gt_zero_iff: "gt_zero v \<longleftrightarrow> 0 < num_val v"
  by (cases v) simp_all

lemma weight_total_replace:
  "weight_total (xs @ (k, v) # ys) = weight_total (xs @ (k, v') # ys)"
  by (simp add: weight_total_def recognized_def)

lemma weighted_sum_replace:
  assumes "num_val v \<le> num_val v'"
  shows "weighted_sum (xs @ (k, v) # ys) \<le> weighted_sum (xs @ (k, v') # ys)"
proof -
  have "clamp01 (num_val v / 10) \<le> clamp01 (num_val v' / 10)"
    using assms by (intro clamp01_mono) simp
  moreover have "0 \<le> weight_or 0 k" using weight_or_range[of 0 k] by simp
  ultimately have "clamp01 (num_val v / 10) * weight_or 0 k
                     \<le> clamp01 (num_val v' / 10) * weight_or 0 k"
    by (rule mult_right_mono)
  then show ?thesis by (simp add: weighted_sum_def recognized_def)
qed

lemma spec_symptom_score_replace:
  assumes "num_val v \<le> num_val v'"
  shows "spec_symptom_score (xs @ (k, v) # ys) \<le> spec_symptom_score (xs @ (k, v') # ys)"
proof -
  have "weighted_sum (xs @ (k, v) # ys) / weight_total (xs @ (k, v') # ys)
          \<le> weighted_sum (xs @ (k, v') # ys) / weight_total (xs @ (k, v') # ys)"
    using weighted_sum_replace[OF assms] weight_total_nonneg by (rule divide_right_mono)
  then show ?thesis
    by (simp add: spec_symptom_score_def weight_total_replace[of xs k v ys v'])
qed

lemma map_of_replace:
  "map_of (xs @ (k, v) # ys) k0 =
     (case map_of xs k0 of
        Some a \<Rightarrow> Some a
      | None \<Rightarrow> if k0 = k then Some v else map_of ys k0)"
  by (simp add: map_add_def split: option.splits)

lemma contribution_replace:
  assumes "num_val v \<le> num_val v'"
  shows "contribution (xs @ (k, v) # ys) k0 \<le> contribution (xs @ (k, v') # ys) k0"
proof (cases "map_of xs k0 = None \<and> k0 = k")
  case True
  have w: "0 \<le> weight_or (1 / 2) k" using weight_or_range[of "1 / 2" k] by simp
  have c: "clamp01 (num_val v / 10) \<le> clamp01 (num_val v' / 10)"
    using assms by (intro clamp01_mono) simp
  have m: "clamp01 (num_val v / 10) * weight_or (1 / 2) k
             \<le> clamp01 (num_val v' / 10) * weight_or (1 / 2) k"
    using c w by (rule mult_right_mono)
  have p: "0 \<le> clamp01 (num_val v' / 10) * weight_or (1 / 2) k"
    using w by (simp add: clamp01_bounds)
  have a: "map_of (xs @ (k, v) # ys) k0 = Some v"
    using True by (subst map_of_replace) auto
  have b: "map_of (xs @ (k, v') # ys) k0 = Some v'"
    using True by (subst map_of_replace) auto
  have e: "k0 = k" using True by simp
  have ca: "contribution (xs @ (k, v) # ys) k0 =
              (if gt_zero v then clamp01 (num_val v / 10) * weight_or (1 / 2) k0 else 0)"
    by (simp only: contribution_def a option.case)
  have cb: "contribution (xs @ (k, v') # ys) k0 =
              (if gt_zero v' then clamp01 (num_val v' / 10) * weight_or (1 / 2) k0 else 0)"
    by (simp only: contribution_def b option.case)
  show ?thesis using assms m p
    by (simp only: ca cb) (simp add: e gt_zero_iff)
next
  case False
  then have "map_of (xs @ (k, v) # ys) k0 = map_of (xs @ (k, v') # ys) k0"
    by (subst (1 2) map_of_replace) (auto split: option.splits)
  then show ?thesis by (simp add: contribution_def)
qed

lemma spec_pattern_score_replace:
  assumes "num_val v \<le> num_val v'"
  shows "spec_pattern_score (xs @ (k, v) # ys) p \<le> spec_pattern_score (xs @ (k, v') # ys) p"
proof -
  have "(\<Sum>k0\<leftarrow>p. contribution (xs @ (k, v) # ys) k0)
          \<le> (\<Sum>k0\<leftarrow>p. contribution (xs @ (k, v') # ys) k0)"
    by (rule sum_list_mono) (rule contribution_replace[OF assms])
  then show ?thesis
    unfolding spec_pattern_score_def by (rule divide_right_mono) simp
qed

lemma recognized_replace_ok:
  assumes "float_ok v" "float_ok v'"
  shows "(\<forall>(a, b) \<in> set (recognized (xs @ (k, v) # ys)). float_ok b)
           \<longleftrightarrow> (\<forall>(a, b) \<in> set (recognized (xs @ (k, v') # ys)). float_ok b)"
  using assms by (auto simp: recognized_def)

text \<open>
  C10: both scoring functions are monotone in each intensity. When the intensity under a
  key \<open>k\<close> of a symptom input is replaced by a larger one, the score that
  \<^verbatim>\<open>calculate_symptom_score\<close> returns for the new input is not below the score it
  returns for the old one, and no condition's score returned by
  \<^verbatim>\<open>detect_disease_patterns\<close> is below its score for the old input. (A call returns no
  score when an int intensity is too large for a float; replacing an intensity that
  converts by another that converts does not change whether
  \<^verbatim>\<open>calculate_symptom_score\<close> returns.)
\<close>

theorem scores_monotone:
  assumes "num_val v \<le> num_val v'"
  shows "(calculate_symptom_score (xs @ (k, v) # ys) = Inr r
            \<and> calculate_symptom_score (xs @ (k, v') # ys) = Inr r' \<longrightarrow> r \<le> r')
         \<and> (detect_disease_patterns (xs @ (k, v) # ys) = Inr scores
            \<and> detect_disease_patterns (xs @ (k, v') # ys) = Inr scores'
            \<longrightarrow> list_all2 (\<lambda>(d, x) (d', x'). d = d' \<and> x \<le> x') scores scores')
         \<and> (float_ok v \<and> float_ok v' \<longrightarrow>
              ((\<exists>a. calculate_symptom_score (xs @ (k, v) # ys) = Inr a)
                 \<longleftrightarrow> (\<exists>a'. calculate_symptom_score (xs @ (k, v') # ys) = Inr a')))"
proof -
  let ?s = "xs @ (k, v) # ys" and ?s' = "xs @ (k, v') # ys"
  have 1: "r \<le> r'"
    if "calculate_symptom_score ?s = Inr r" "calculate_symptom_score ?s' = Inr r'"
  proof -
    have "r = spec_symptom_score ?s"
      using that(1) by (simp add: calculate_symptom_score_eq split: if_splits)
    moreover have "r' = spec_symptom_score ?s'"
      using that(2) by (simp add: calculate_symptom_score_eq split: if_splits)
    ultimately show ?thesis using spec_symptom_score_replace[OF assms] by simp
  qed
  have 2: "list_all2 (\<lambda>(d, x) (d', x'). d = d' \<and> x \<le> x') scores scores'"
    if "detect_disease_patterns ?s = Inr scores" "detect_disease_patterns ?s' = Inr scores'"
  proof -
    have a: "scores = map (\<lambda>(d, p). (d, spec_pattern_score ?s p)) disease_patterns"
      using that(1) by (simp add: detect_disease_patterns_eq split: if_splits)
    have b: "scores' = map (\<lambda>(d, p). (d, spec_pattern_score ?s' p)) disease_patterns"
      using that(2) by (simp add: detect_disease_patterns_eq split: if_splits)
    show ?thesis
      unfolding a b
      by (simp add: list_all2_map1 list_all2_map2 list_all2_same case_prod_unfold
          spec_pattern_score_replace[OF assms])
  qed
  have 3: "(\<exists>a. calculate_symptom_score ?s = Inr a)
             \<longleftrightarrow> (\<exists>a'. calculate_symptom_score ?s' = Inr a')"
    if "float_ok v" "float_ok v'"
    using recognized_replace_ok[OF that, of xs k ys]
    by (simp add: calculate_symptom_score_eq)
  show ?thesis using 1 2 3 by blast
qed

theorem scores_monotone_witness:
  "calculate_symptom_score ([(''tos'', PInt 5)] @ (''fiebre'', PInt 3) # [(''nausea'', PFloat 2)])
     = Inr (64 / 190)
   \<and> calculate_symptom_score ([(''tos'', PInt 5)] @ (''fiebre'', PInt 8) # [(''nausea'', PFloat 2)])
     = Inr (104 / 190)
   \<and> (64 / 190 :: real) \<le> 104 / 190"
proof -
  have a: "calculate_symptom_score
             ([(''tos'', PInt 5)] @ (''fiebre'', PInt 3) # [(''nausea'', PFloat 2)])
           = Inr (64 / 190)"
    by (simp add: calculate_symptom_score_def normalize_def float_max_int_def
        symptom_weights_def)
  have b: "calculate_symptom_score
             ([(''tos'', PInt 5)] @ (''fiebre'', PInt 8) # [(''nausea'', PFloat 2)])
           = Inr (104 / 190)"
    by (simp add: calculate_symptom_score_def normalize_def float_max_int_def
        symptom_weights_def)
  have le: "num_val (PInt 3) \<le> num_val (PInt 8)" by simp
  show ?thesis
    using a b scores_monotone[OF le, of "[(''tos'', PInt 5)]" "''fiebre''"
        "[(''nausea'', PFloat 2)]" "64 / 190" "104 / 190"]
    by blast
qed

end
